theory Spec2Isabelle
  imports Complex_Main
begin

section \<open>Bounded evaluation of restricted scripts: the model of evaluator.py\<close>

text \<open>
  The module runs a callable in a child process (\<^verbatim>\<open>RunnableProcessing\<close>), waits for it
  up to a deadline (\<^verbatim>\<open>timeout\<close>) and, decorated with \<^verbatim>\<open>@timeout(0.5)\<close>, offers
  \<^verbatim>\<open>evaluate\<close>, which runs a script in an asteval interpreter and returns the
  requested variables.

  What the module does not contain is taken as a parameter: the wall clock, the time the
  child needs and what pickling does to an object on its way through the queue
  (\<open>world\<close>), and the asteval library (\<open>asteval\<close>: its table of built-in symbols and the
  behaviour of an interpreter on a script).
\<close>

subsection \<open>Exceptions and the outcome of a call\<close>

text \<open>
  \<^verbatim>\<open>TimeoutException\<close> carries the message
  \<^verbatim>\<open>'timed out after {0} seconds'.format(runtime)\<close>; the model keeps the number.
  \<open>OtherException\<close> is any other instance of \<^verbatim>\<open>Exception\<close> (class name and message);
  \<open>SystemExiting\<close> is an instance of \<^verbatim>\<open>BaseException\<close> outside \<^verbatim>\<open>Exception\<close>
  (\<^verbatim>\<open>SystemExit\<close>, \<^verbatim>\<open>KeyboardInterrupt\<close>, \<^verbatim>\<open>GeneratorExit\<close>), by class name.
\<close>

datatype pyexc =
    TimeoutException real
  | AssertionError
  | TypeError string
  | OtherException string string
  | SystemExiting string

text \<open>\<^verbatim>\<open>isinstance(e, Exception)\<close>: what the clause \<^verbatim>\<open>except Exception as e\<close> catches.\<close>

fun is_Exception :: "pyexc \<Rightarrow> bool" where
  "is_Exception (SystemExiting _) = False"
| "is_Exception _ = True"

text \<open>What calling a Python callable does: it returns, it raises, or it never comes back.\<close>

datatype 'r outcome = Returns 'r | Raises pyexc | NoReturn

subsection \<open>The queue of capacity one\<close>

text \<open>
  \<^verbatim>\<open>multiprocessing.Queue(maxsize)\<close>. A \<^verbatim>\<open>maxsize\<close> of zero means no bound.
  \<^verbatim>\<open>put\<close> and \<^verbatim>\<open>get\<close> are called with their defaults, so they block: \<open>None\<close> is
  a call that waits for ever.

  The queue is a semaphore of \<^verbatim>\<open>maxsize\<close> slots, a buffer and a pipe. \<^verbatim>\<open>put\<close> takes a
  slot and leaves the object in the buffer; it never looks at the object. \<open>items\<close> are the
  objects put whose slots are taken, and \<^verbatim>\<open>full\<close> asks the semaphore. The queue's feeder
  thread pickles each object and writes it to the pipe; \<^verbatim>\<open>get\<close> reads the pipe, gives
  the slot back and unpickles. What becomes of an object on this way is not in the module:
  \<^item> \<open>Delivered\<close>: it is pickled and sent, and the reader rebuilds an equal object;
  \<^item> \<open>Unreadable e\<close>: it is pickled and sent, and unpickling it raises \<open>e\<close> in the reader
    (an exception whose class cannot be called with its \<^verbatim>\<open>args\<close>);
  \<^item> \<open>Lost\<close>: it cannot be pickled, and the feeder finds that out while the writing
    process shuts down: nothing is sent and the slot stays taken;
  \<^item> \<open>Dropped\<close>: it cannot be pickled, and the feeder finds that out earlier: nothing is
    sent and the feeder gives the slot back.
\<close>

datatype delivery = Delivered | Unreadable pyexc | Lost | Dropped

fun sent :: "delivery \<Rightarrow> bool" where
  "sent Delivered = True"
| "sent (Unreadable e) = True"
| "sent Lost = False"
| "sent Dropped = False"

record 'a queue =
  maxsize :: nat
  items :: "'a list"

definition Queue :: "nat \<Rightarrow> 'a queue" where
  "Queue n = \<lparr>maxsize = n, items = []\<rparr>"

definition full :: "'a queue \<Rightarrow> bool" where
  "full q = (maxsize q \<noteq> 0 \<and> maxsize q \<le> length (items q))"

definition put :: "'a \<Rightarrow> 'a queue \<Rightarrow> 'a queue option" where
  "put x q = (if full q then None else Some (q\<lparr>items := items q @ [x]\<rparr>))"

text \<open>
  The feeder thread has done its work when the writing process has exited: the objects it
  dropped are no longer counted.
\<close>

definition feed :: "('a \<Rightarrow> delivery) \<Rightarrow> 'a queue \<Rightarrow> 'a queue" where
  "feed pickled q = q\<lparr>items := filter (\<lambda>x. pickled x \<noteq> Dropped) (items q)\<rparr>"

text \<open>The first object that reached the pipe, and the objects that stay counted.\<close>

fun first_sent :: "('a \<Rightarrow> delivery) \<Rightarrow> 'a list \<Rightarrow> ('a \<times> 'a list) option" where
  "first_sent pickled [] = None"
| "first_sent pickled (x # xs) =
     (if sent (pickled x) then Some (x, xs)
      else (case first_sent pickled xs of
              None \<Rightarrow> None
            | Some (y, ys) \<Rightarrow> Some (y, x # ys)))"

text \<open>
  \<^verbatim>\<open>get\<close> waits for ever when nothing has reached the pipe, also when the queue is full.
  Otherwise it returns the object (\<open>Inr\<close>) or raises what unpickling raises (\<open>Inl\<close>).
\<close>

definition get :: "('a \<Rightarrow> delivery) \<Rightarrow> 'a queue \<Rightarrow> ((pyexc + 'a) \<times> 'a queue) option" where
  "get pickled q =
     (case first_sent pickled (items q) of
        None \<Rightarrow> None
      | Some (x, xs) \<Rightarrow>
          Some (case pickled x of Unreadable e \<Rightarrow> Inl e | _ \<Rightarrow> Inr x, q\<lparr>items := xs\<rparr>))"

subsection \<open>RunnableProcessing\<close>

text \<open>
  The tuple \<^verbatim>\<open>(True, result)\<close> is \<open>Success result\<close> and \<^verbatim>\<open>(False, e)\<close> is
  \<open>Failure e\<close>.
\<close>

datatype 'r envelope = Success 'r | Failure pyexc

datatype status = Initial | Running | Exited | Terminated

record 'r process =
  queue :: "'r envelope queue"
  status :: status

text \<open>\<^verbatim>\<open>__init__\<close>: a fresh queue of capacity one; the process is not started.\<close>

definition RunnableProcessing :: "'r process" where
  "RunnableProcessing = \<lparr>queue = Queue 1, status = Initial\<rparr>"

text \<open>
  How the child process ends, with the queue as the child leaves it: \<^verbatim>\<open>run_func\<close>
  returns and the process exits; an exception leaves \<^verbatim>\<open>run_func\<close> and the process dies
  of it; or the child never gets to its end.
\<close>

datatype 'q child_end = Exits 'q | Dies pyexc 'q | Runs_forever 'q

fun queue_of :: "'q child_end \<Rightarrow> 'q" where
  "queue_of (Exits q) = q"
| "queue_of (Dies e q) = q"
| "queue_of (Runs_forever q) = q"

text \<open>
  \<^verbatim>\<open>run_func\<close>, given what \<^verbatim>\<open>func(*args, **kwargs)\<close> does. The \<^verbatim>\<open>try\<close> has one
  handler, \<^verbatim>\<open>except Exception\<close>: any other exception leaves the method.
\<close>

definition run_func :: "'r outcome \<Rightarrow> 'r envelope queue \<Rightarrow> 'r envelope queue child_end" where
  "run_func func q =
     (case func of
        Returns result \<Rightarrow>
          (case put (Success result) q of Some q' \<Rightarrow> Exits q' | None \<Rightarrow> Runs_forever q)
      | Raises e \<Rightarrow>
          (if is_Exception e
           then (case put (Failure e) q of Some q' \<Rightarrow> Exits q' | None \<Rightarrow> Runs_forever q)
           else Dies e q)
      | NoReturn \<Rightarrow> Runs_forever q)"

definition done_proc :: "'r process \<Rightarrow> bool" where
  "done_proc p = full (queue p)"

definition result ::
  "('r envelope \<Rightarrow> delivery) \<Rightarrow> 'r process \<Rightarrow> ((pyexc + 'r envelope) \<times> 'r process) option" where
  "result pickled p =
     (case get pickled (queue p) of None \<Rightarrow> None | Some (x, q) \<Rightarrow> Some (x, p\<lparr>queue := q\<rparr>))"

subsection \<open>The process operations the wrapper calls\<close>

text \<open>
  \<^verbatim>\<open>start\<close>, \<^verbatim>\<open>join\<close>, \<^verbatim>\<open>is_alive\<close> and \<^verbatim>\<open>terminate\<close> are inherited from
  \<^verbatim>\<open>multiprocessing.Process\<close> and modelled as the library documents them.
  The observations the parent makes of the world: the two readings of \<^verbatim>\<open>time.time()\<close>
  (before the process is made, and on the timeout path), the seconds a child that comes
  to an end needs to do so, counted from the call of \<^verbatim>\<open>join\<close>, and what becomes of an
  envelope on its way through the queue.
\<close>

record 'r world =
  time_before :: real
  time_after :: real
  child_duration :: real
  pickling :: "'r envelope \<Rightarrow> delivery"

text \<open>
  An instance of \<^verbatim>\<open>TypeError\<close>, \<^verbatim>\<open>AssertionError\<close> or \<^verbatim>\<open>TimeoutException\<close> holds its
  message only: it is pickled and rebuilt in every world. For any other envelope the world
  says what happens.
\<close>

fun plain_exception :: "pyexc \<Rightarrow> bool" where
  "plain_exception (TimeoutException t) = True"
| "plain_exception AssertionError = True"
| "plain_exception (TypeError msg) = True"
| "plain_exception (OtherException cls msg) = False"
| "plain_exception (SystemExiting cls) = False"

definition pickled :: "'r world \<Rightarrow> 'r envelope \<Rightarrow> delivery" where
  "pickled w x =
     (case x of
        Success r \<Rightarrow> pickling w x
      | Failure e \<Rightarrow> if plain_exception e then Delivered else pickling w x)"

definition start :: "'r process \<Rightarrow> 'r process" where
  "start p = p\<lparr>status := Running\<rparr>"

text \<open>
  \<^verbatim>\<open>join(seconds)\<close> waits for the child at most \<open>seconds\<close>. A child that ends within them
  has exited when \<^verbatim>\<open>join\<close> returns, and its feeder thread with it; any other child is
  still running. The queue is shared with the child, so it holds what the child has put.
\<close>

definition join :: "real \<Rightarrow> 'r world \<Rightarrow> 'r envelope queue child_end \<Rightarrow> 'r process \<Rightarrow> 'r process" where
  "join seconds w child p =
     (case child of
        Runs_forever q \<Rightarrow> p\<lparr>queue := q\<rparr>
      | Exits q \<Rightarrow>
          (if child_duration w \<le> seconds
           then p\<lparr>queue := feed (pickled w) q, status := Exited\<rparr>
           else p\<lparr>queue := q\<rparr>)
      | Dies e q \<Rightarrow>
          (if child_duration w \<le> seconds
           then p\<lparr>queue := feed (pickled w) q, status := Exited\<rparr>
           else p\<lparr>queue := q\<rparr>))"

definition is_alive :: "'r process \<Rightarrow> bool" where
  "is_alive p = (status p = Running)"

definition terminate :: "'r process \<Rightarrow> 'r process" where
  "terminate p = (if status p = Running then p\<lparr>status := Terminated\<rparr> else p)"

subsection \<open>The timeout decorator\<close>

text \<open>
  The child is a copy of the parent: \<open>fork\<close> gives the memory the parent keeps and the
  memory the child starts from. \<open>function\<close> runs in the child, on the child's memory, and
  may change it; the parent sees the child through the queue and the process status only.
\<close>

definition fork :: "'m \<Rightarrow> 'm \<times> 'm" where
  "fork m = (m, m)"

text \<open>
  The process as the parent finds it when \<^verbatim>\<open>proc.join(seconds)\<close> has returned
  (lines 47 to 49 of the source).
\<close>

definition spawn_join ::
  "real \<Rightarrow> ('a \<Rightarrow> 'm \<Rightarrow> 'r outcome \<times> 'm) \<Rightarrow> 'r world \<Rightarrow> 'm \<Rightarrow> 'a \<Rightarrow> 'r process" where
  "spawn_join seconds function w m args =
     (let proc = RunnableProcessing;
          child_memory = snd (fork m);
          proc = start proc
      in join seconds w (run_func (fst (function args child_memory)) (queue proc)) proc)"

text \<open>
  \<^verbatim>\<open>inner\<close>: the value is \<open>None\<close> when the call never returns, and otherwise what the
  caller gets (\<open>Inl\<close> an exception raised, \<open>Inr\<close> the value returned), the parent's memory
  and the process object after the call. The \<^verbatim>\<open>assert\<close> raises \<^verbatim>\<open>AssertionError\<close> when
  its condition is false, as Python does unless it is started with \<^verbatim>\<open>-O\<close>. An exception
  that \<^verbatim>\<open>proc.result()\<close> raises on line 56 leaves \<^verbatim>\<open>inner\<close> as it is.
\<close>

definition inner ::
  "real \<Rightarrow> bool \<Rightarrow> ('a \<Rightarrow> 'm \<Rightarrow> 'r outcome \<times> 'm) \<Rightarrow> 'r world \<Rightarrow> 'm \<Rightarrow> 'a
     \<Rightarrow> ((pyexc + 'r) \<times> 'm \<times> 'r process) option" where
  "inner seconds force_kill function w m args =
     (let now = time_before w;
          parent_memory = fst (fork m);
          proc = spawn_join seconds function w m args
      in if is_alive proc then
           (let proc = (if force_kill then terminate proc else proc);
                runtime = time_after w - now
            in Some (Inl (TimeoutException runtime), parent_memory, proc))
         else if \<not> done_proc proc then Some (Inl AssertionError, parent_memory, proc)
         else (case result (pickled w) proc of
                 None \<Rightarrow> None
               | Some (Inl e, proc) \<Rightarrow> Some (Inl e, parent_memory, proc)
               | Some (Inr (Success r), proc) \<Rightarrow> Some (Inr r, parent_memory, proc)
               | Some (Inr (Failure e), proc) \<Rightarrow> Some (Inl e, parent_memory, proc)))"

definition timeout ::
  "real \<Rightarrow> bool \<Rightarrow> ('a \<Rightarrow> 'm \<Rightarrow> 'r outcome \<times> 'm) \<Rightarrow> 'r world \<Rightarrow> 'm \<Rightarrow> 'a
     \<Rightarrow> ((pyexc + 'r) \<times> 'm \<times> 'r process) option" where
  "timeout seconds force_kill function = inner seconds force_kill function"

subsection \<open>evaluate\<close>

text \<open>
  A dictionary is a map from names to values. The dictionaries of a process live in its
  memory, at references; the default \<^verbatim>\<open>{}\<close> of \<^verbatim>\<open>input_variables\<close> is one object,
  made when the function is defined, at \<open>default_input_variables\<close>.
\<close>

type_synonym 'v symtable = "string \<rightharpoonup> 'v"

type_synonym ref = nat

type_synonym 'v memory = "ref \<Rightarrow> 'v symtable"

definition default_input_variables :: ref where
  "default_input_variables = 0"

text \<open>The keyword arguments of \<^verbatim>\<open>Interpreter(...)\<close> other than the symbol table.\<close>

record flags =
  use_numpy :: bool
  no_if :: bool
  no_for :: bool
  no_while :: bool
  no_try :: bool
  no_functiondef :: bool
  no_ifexp :: bool
  no_listcomp :: bool
  no_augassign :: bool
  no_assert :: bool
  no_delete :: bool
  no_raise :: bool
  no_print :: bool

definition interpreter_flags :: flags where
  "interpreter_flags =
     \<lparr>use_numpy = False, no_if = False, no_for = False, no_while = False, no_try = True,
      no_functiondef = True, no_ifexp = False, no_listcomp = True, no_augassign = False,
      no_assert = True, no_delete = True, no_raise = True, no_print = True\<rparr>"

text \<open>
  The library: Python's \<^verbatim>\<open>range\<close>, the symbols asteval puts into every table (by
  \<^verbatim>\<open>use_numpy\<close>), and what \<^verbatim>\<open>Interpreter(symtable = sym, ...)(eval_code)\<close> does: it
  works on \<open>sym\<close> in place, so a run that returns gives the table as the script left it,
  and it can change objects the child's memory holds.
\<close>

record 'v asteval =
  py_range :: 'v
  builtin_symbols :: "bool \<Rightarrow> 'v symtable"
  Interpreter :: "flags \<Rightarrow> 'v symtable \<Rightarrow> string \<Rightarrow> 'v memory \<Rightarrow> 'v symtable outcome \<times> 'v memory"

text \<open>
  \<^verbatim>\<open>make_symbol_table(use_numpy, **kws)\<close>: the built-in symbols, updated with the keyword
  arguments.
\<close>

definition make_symbol_table :: "'v asteval \<Rightarrow> bool \<Rightarrow> 'v symtable \<Rightarrow> 'v symtable" where
  "make_symbol_table lib numpy kws = builtin_symbols lib numpy ++ kws"

text \<open>
  A call \<^verbatim>\<open>evaluate(eval_code, input_variables = ..., output_variables = ..., ...)\<close>:
  \<open>None\<close> is an argument left out; \<open>other_kwargs\<close> are keyword arguments under any other
  name (the names \<^verbatim>\<open>func\<close> and \<^verbatim>\<open>self\<close>, which \<^verbatim>\<open>RunnableProcessing.__init__\<close>
  takes for its own, left aside).
\<close>

record 'v call =
  eval_code :: string
  input_variables :: "ref option"
  output_variables :: "string list option"
  other_kwargs :: "(string \<times> 'v) list"

text \<open>The dictionary and the list the body works with, once the defaults are filled in.\<close>

definition bound_input_variables :: "'v call \<Rightarrow> 'v memory \<Rightarrow> 'v symtable" where
  "bound_input_variables c m =
     m (case input_variables c of None \<Rightarrow> default_input_variables | Some r \<Rightarrow> r)"

definition bound_output_variables :: "'v call \<Rightarrow> string list" where
  "bound_output_variables c = (case output_variables c of None \<Rightarrow> [] | Some xs \<Rightarrow> xs)"

text \<open>
  Line 79: \<^verbatim>\<open>make_symbol_table(use_numpy=False, range=range, **input_variables)\<close>. A key of
  \<open>input_variables\<close> that repeats a keyword written in the call is a \<^verbatim>\<open>TypeError\<close>
  (multiple values for a keyword argument).
\<close>

definition initial_symtable :: "'v asteval \<Rightarrow> 'v symtable \<Rightarrow> pyexc + 'v symtable" where
  "initial_symtable lib ins =
     (if ''use_numpy'' \<in> dom ins \<or> ''range'' \<in> dom ins
      then Inl (TypeError ''multiple values for keyword argument'')
      else Inr (make_symbol_table lib False ([''range'' \<mapsto> py_range lib] ++ ins)))"

text \<open>
  The body of \<^verbatim>\<open>evaluate\<close>, as the child runs it: the arguments are bound (a keyword the
  function does not have is a \<^verbatim>\<open>TypeError\<close>), the table is built, the interpreter runs
  the script, and the table it leaves is cut down to the names in \<open>output_variables\<close>.
\<close>

definition evaluate_body :: "'v asteval \<Rightarrow> 'v call \<Rightarrow> 'v memory \<Rightarrow> 'v symtable outcome \<times> 'v memory" where
  "evaluate_body lib c m =
     (case other_kwargs c of
        kw # _ \<Rightarrow> (Raises (TypeError ''unexpected keyword argument''), m)
      | [] \<Rightarrow>
          (case initial_symtable lib (bound_input_variables c m) of
             Inl e \<Rightarrow> (Raises e, m)
           | Inr symtab \<Rightarrow>
               (case Interpreter lib interpreter_flags symtab (eval_code c) m of
                  (Returns symtab', m') \<Rightarrow>
                    (Returns (symtab' |` set (bound_output_variables c)), m')
                | (Raises e, m') \<Rightarrow> (Raises e, m')
                | (NoReturn, m') \<Rightarrow> (NoReturn, m'))))"

text \<open>\<^verbatim>\<open>@timeout(0.5)\<close>, with \<^verbatim>\<open>force_kill\<close> at its default.\<close>

definition evaluate ::
  "'v asteval \<Rightarrow> 'v symtable world \<Rightarrow> 'v memory \<Rightarrow> 'v call
     \<Rightarrow> ((pyexc + 'v symtable) \<times> 'v memory \<times> 'v symtable process) option" where
  "evaluate lib = timeout (1 / 2) True (evaluate_body lib)"

subsection \<open>A library to run the model on\<close>

text \<open>
  A stand-in for asteval with integer values, which knows a handful of scripts: enough to
  run every path of the wrapper. Its table of built-in symbols holds \<^verbatim>\<open>abs\<close> only. As
  asteval does, it records the error of a script it cannot run and returns, leaving the
  table as it was: a name that is not defined, a function definition the flags switch off,
  a script it does not know.
\<close>

definition sample_interpreter ::
  "flags \<Rightarrow> int symtable \<Rightarrow> string \<Rightarrow> int memory \<Rightarrow> int symtable outcome \<times> int memory" where
  "sample_interpreter fl tab code m =
     (if code = ''while True: pass'' then (NoReturn, m)
      else if code = ''x = 5'' then (Returns (tab(''x'' \<mapsto> 5)), m)
      else if code = ''y = y + 1'' then
        (case tab ''y'' of
           None \<Rightarrow> (Returns tab, m)
         | Some v \<Rightarrow> (Returns (tab(''y'' \<mapsto> v + 1)), m))
      else if code = ''def f(): pass'' then
        (if no_functiondef fl then (Returns tab, m) else (Returns (tab(''f'' \<mapsto> 0)), m))
      else (Returns tab, m))"

definition sample_asteval :: "int asteval" where
  "sample_asteval =
     \<lparr>py_range = 0, builtin_symbols = (\<lambda>numpy. [''abs'' \<mapsto> 1]), Interpreter = sample_interpreter\<rparr>"

text \<open>
  What crosses the queue in the sample worlds. The value \<open>- 1\<close> of the variable \<^verbatim>\<open>f\<close>
  stands for an object that cannot be pickled (a \<^verbatim>\<open>lambda\<close>): a result that holds it is
  lost. \<^verbatim>\<open>TwoArgs\<close> is an exception class whose constructor takes two arguments: pickle
  rebuilds an exception from its \<^verbatim>\<open>args\<close>, here one, and fails with a \<^verbatim>\<open>TypeError\<close>.
\<close>

definition sample_pickling :: "int symtable envelope \<Rightarrow> delivery" where
  "sample_pickling x =
     (case x of
        Success tab \<Rightarrow> if tab ''f'' = Some (- 1) then Lost else Delivered
      | Failure e \<Rightarrow>
          if e = OtherException ''TwoArgs'' ''a''
          then Unreadable (TypeError ''missing 1 required positional argument'')
          else Delivered)"

text \<open>A world in which the child ends after a tenth of a second, and one in which it needs two seconds.\<close>

definition quick_world :: "int symtable world" where
  "quick_world = \<lparr>time_before = 100, time_after = 100 + 13 / 25, child_duration = 1 / 10,
     pickling = sample_pickling\<rparr>"

definition slow_world :: "int symtable world" where
  "slow_world = \<lparr>time_before = 100, time_after = 100 + 13 / 25, child_duration = 2,
     pickling = sample_pickling\<rparr>"

definition other_quick_world :: "int symtable world" where
  "other_quick_world = \<lparr>time_before = 200, time_after = 201, child_duration = 1 / 5,
     pickling = sample_pickling\<rparr>"

text \<open>
  A parent memory with the empty default dictionary, \<^verbatim>\<open>{'y': 10}\<close> at reference 1,
  \<^verbatim>\<open>{'use_numpy': 1}\<close> at reference 2, \<^verbatim>\<open>{'f': lambda: 0}\<close> at reference 3 and
  \<^verbatim>\<open>{'range': 7}\<close> at reference 4.
\<close>

definition sample_memory :: "int memory" where
  "sample_memory =
     (\<lambda>r. if r = 1 then [''y'' \<mapsto> 10]
          else if r = 2 then [''use_numpy'' \<mapsto> 1]
          else if r = 3 then [''f'' \<mapsto> - 1]
          else if r = 4 then [''range'' \<mapsto> 7]
          else Map.empty)"

text \<open>The calls the properties below are run on.\<close>

definition looping_call :: "int call" where
  "looping_call = \<lparr>eval_code = ''while True: pass'', input_variables = None,
     output_variables = None, other_kwargs = []\<rparr>"

definition assigning_call :: "int call" where
  "assigning_call = \<lparr>eval_code = ''x = 5'', input_variables = Some 1,
     output_variables = Some [''x'', ''y'', ''z''], other_kwargs = []\<rparr>"

definition incrementing_call :: "int call" where
  "incrementing_call = \<lparr>eval_code = ''y = y + 1'', input_variables = Some 1,
     output_variables = Some [''y''], other_kwargs = []\<rparr>"

definition defining_call :: "int call" where
  "defining_call = \<lparr>eval_code = ''def f(): pass'', input_variables = None,
     output_variables = Some [''f''], other_kwargs = []\<rparr>"

definition deadline_call :: "int call" where
  "deadline_call = \<lparr>eval_code = ''x = 5'', input_variables = None,
     output_variables = Some [''x''], other_kwargs = [(''timeout_seconds'', 10)]\<rparr>"

definition numpy_named_call :: "int call" where
  "numpy_named_call = \<lparr>eval_code = ''x = 5'', input_variables = Some 2,
     output_variables = Some [''x''], other_kwargs = []\<rparr>"

definition range_named_call :: "int call" where
  "range_named_call = \<lparr>eval_code = ''x = 5'', input_variables = Some 4,
     output_variables = Some [''x''], other_kwargs = []\<rparr>"

definition lambda_call :: "int call" where
  "lambda_call = \<lparr>eval_code = ''x = 5'', input_variables = Some 3,
     output_variables = Some [''f''], other_kwargs = []\<rparr>"



text \<open>A callable that raises the exception it is given, for the decorator to run.\<close>

definition raising :: "pyexc \<Rightarrow> unit \<Rightarrow> int memory \<Rightarrow> int symtable outcome \<times> int memory" where
  "raising e args m = (Raises e, m)"

section \<open>Properties\<close>

subsection \<open>The paths of the wrapper\<close>

lemma queue_capacity_one_full: "full (Queue 1 :: 'a queue) = False"
  by (simp add: full_def Queue_def)

text \<open>The process the parent finds after \<^verbatim>\<open>join\<close>, by what the callable does.\<close>

lemma spawn_join_cases:
  "spawn_join seconds function w m args =
     (case fst (function args m) of
        Returns r \<Rightarrow>
          (if child_duration w \<le> seconds
           then \<lparr>queue = feed (pickled w) \<lparr>maxsize = 1, items = [Success r]\<rparr>, status = Exited\<rparr>
           else \<lparr>queue = \<lparr>maxsize = 1, items = [Success r]\<rparr>, status = Running\<rparr>)
      | Raises e \<Rightarrow>
          (if is_Exception e
           then (if child_duration w \<le> seconds
                 then \<lparr>queue = feed (pickled w) \<lparr>maxsize = 1, items = [Failure e]\<rparr>, status = Exited\<rparr>
                 else \<lparr>queue = \<lparr>maxsize = 1, items = [Failure e]\<rparr>, status = Running\<rparr>)
           else \<lparr>queue = Queue 1, status = (if child_duration w \<le> seconds then Exited else Running)\<rparr>)
      | NoReturn \<Rightarrow> \<lparr>queue = Queue 1, status = Running\<rparr>)"
  by (simp add: spawn_join_def RunnableProcessing_def start_def fork_def run_func_def put_def
      full_def Queue_def join_def feed_def Let_def split: outcome.splits)

lemma spawn_join_alive_iff:
  "is_alive (spawn_join seconds function w m args) \<longleftrightarrow>
     fst (function args m) = NoReturn \<or> seconds < child_duration w"
  by (auto simp add: spawn_join_cases is_alive_def split: outcome.splits)

text \<open>A child that needs longer than the deadline is alive when \<^verbatim>\<open>join\<close> returns.\<close>

lemma spawn_join_late:
  assumes "seconds < child_duration w"
  shows "is_alive (spawn_join seconds function w m args)"
  using assms by (simp add: spawn_join_alive_iff)

text \<open>The three ways out of \<^verbatim>\<open>inner\<close> that do not read the queue.\<close>

lemma inner_alive:
  assumes "is_alive (spawn_join seconds function w m args)"
  shows "inner seconds force_kill function w m args =
     Some (Inl (TimeoutException (time_after w - time_before w)), m,
           if force_kill then terminate (spawn_join seconds function w m args)
           else spawn_join seconds function w m args)"
  using assms by (simp add: inner_def fork_def Let_def)

lemma inner_finished_empty:
  assumes "\<not> is_alive (spawn_join seconds function w m args)"
    and "\<not> done_proc (spawn_join seconds function w m args)"
  shows "inner seconds force_kill function w m args =
     Some (Inl AssertionError, m, spawn_join seconds function w m args)"
  using assms by (simp add: inner_def fork_def Let_def)

lemma inner_escapes:
  assumes "fst (function args m) = Raises e" and "\<not> is_Exception e" and "child_duration w \<le> seconds"
  shows "inner seconds force_kill function w m args =
     Some (Inl AssertionError, m, \<lparr>queue = Queue 1, status = Exited\<rparr>)"
  using assms
  by (simp add: inner_def fork_def Let_def spawn_join_cases is_alive_def done_proc_def full_def
      Queue_def)

text \<open>
  A child that has put one envelope and exited in time: what the parent gets depends on what
  became of the envelope.
\<close>

lemma inner_one_envelope:
  assumes "spawn_join seconds function w m args =
      \<lparr>queue = feed (pickled w) \<lparr>maxsize = 1, items = [x]\<rparr>, status = Exited\<rparr>"
  shows "inner seconds force_kill function w m args =
     (case pickled w x of
        Delivered \<Rightarrow>
          (case x of
             Success r \<Rightarrow> Some (Inr r, m, \<lparr>queue = \<lparr>maxsize = 1, items = []\<rparr>, status = Exited\<rparr>)
           | Failure e \<Rightarrow> Some (Inl e, m, \<lparr>queue = \<lparr>maxsize = 1, items = []\<rparr>, status = Exited\<rparr>))
      | Unreadable e \<Rightarrow> Some (Inl e, m, \<lparr>queue = \<lparr>maxsize = 1, items = []\<rparr>, status = Exited\<rparr>)
      | Lost \<Rightarrow> None
      | Dropped \<Rightarrow>
          Some (Inl AssertionError, m, \<lparr>queue = \<lparr>maxsize = 1, items = []\<rparr>, status = Exited\<rparr>))"
  by (simp add: inner_def fork_def Let_def assms is_alive_def done_proc_def full_def feed_def
      result_def get_def split: delivery.splits envelope.splits)

lemma spawn_join_returned:
  assumes "fst (function args m) = Returns r" and "child_duration w \<le> seconds"
  shows "spawn_join seconds function w m args =
      \<lparr>queue = feed (pickled w) \<lparr>maxsize = 1, items = [Success r]\<rparr>, status = Exited\<rparr>"
  using assms by (simp add: spawn_join_cases)

lemma spawn_join_raised:
  assumes "fst (function args m) = Raises e" and "is_Exception e" and "child_duration w \<le> seconds"
  shows "spawn_join seconds function w m args =
      \<lparr>queue = feed (pickled w) \<lparr>maxsize = 1, items = [Failure e]\<rparr>, status = Exited\<rparr>"
  using assms by (simp add: spawn_join_cases)

lemma inner_returns:
  assumes "fst (function args m) = Returns r" and "child_duration w \<le> seconds"
    and "pickled w (Success r) = Delivered"
  shows "inner seconds force_kill function w m args =
     Some (Inr r, m, \<lparr>queue = \<lparr>maxsize = 1, items = []\<rparr>, status = Exited\<rparr>)"
proof -
  from assms(1,2) have "spawn_join seconds function w m args =
      \<lparr>queue = feed (pickled w) \<lparr>maxsize = 1, items = [Success r]\<rparr>, status = Exited\<rparr>"
    by (rule spawn_join_returned)
  from inner_one_envelope [OF this] assms(3) show ?thesis by simp
qed

lemma inner_raises:
  assumes "fst (function args m) = Raises e" and "is_Exception e" and "child_duration w \<le> seconds"
    and "pickled w (Failure e) = Delivered"
  shows "inner seconds force_kill function w m args =
     Some (Inl e, m, \<lparr>queue = \<lparr>maxsize = 1, items = []\<rparr>, status = Exited\<rparr>)"
proof -
  from assms(1,2,3) have "spawn_join seconds function w m args =
      \<lparr>queue = feed (pickled w) \<lparr>maxsize = 1, items = [Failure e]\<rparr>, status = Exited\<rparr>"
    by (rule spawn_join_raised)
  from inner_one_envelope [OF this] assms(4) show ?thesis by simp
qed

text \<open>An error that cannot be rebuilt reaches the caller as the error of unpickling it.\<close>

lemma inner_raises_unreadable:
  assumes "fst (function args m) = Raises e" and "is_Exception e" and "child_duration w \<le> seconds"
    and "pickled w (Failure e) = Unreadable e'"
  shows "inner seconds force_kill function w m args =
     Some (Inl e', m, \<lparr>queue = \<lparr>maxsize = 1, items = []\<rparr>, status = Exited\<rparr>)"
proof -
  from assms(1,2,3) have "spawn_join seconds function w m args =
      \<lparr>queue = feed (pickled w) \<lparr>maxsize = 1, items = [Failure e]\<rparr>, status = Exited\<rparr>"
    by (rule spawn_join_raised)
  from inner_one_envelope [OF this] assms(4) show ?thesis by simp
qed

text \<open>A result that is lost on its way leaves the parent waiting in \<^verbatim>\<open>queue.get()\<close>.\<close>

lemma inner_returns_lost:
  assumes "fst (function args m) = Returns r" and "child_duration w \<le> seconds"
    and "pickled w (Success r) = Lost"
  shows "inner seconds force_kill function w m args = None"
proof -
  from assms(1,2) have "spawn_join seconds function w m args =
      \<lparr>queue = feed (pickled w) \<lparr>maxsize = 1, items = [Success r]\<rparr>, status = Exited\<rparr>"
    by (rule spawn_join_returned)
  from inner_one_envelope [OF this] assms(3) show ?thesis by simp
qed

text \<open>A put that succeeds on a queue of capacity one leaves it within its capacity.\<close>

lemma put_capacity_one:
  assumes "maxsize q = 1" and "length (items q) \<le> 1" and "put x q = Some q'"
  shows "maxsize q' = 1 \<and> length (items q') \<le> 1"
proof -
  from assms(3) have nf: "\<not> full q" and q': "q' = q\<lparr>items := items q @ [x]\<rparr>"
    by (simp_all add: put_def split: if_splits)
  from nf assms(1) have "items q = []" by (cases "items q") (simp_all add: full_def)
  with q' assms(1) show ?thesis by simp
qed

text \<open>
  Whatever \<^verbatim>\<open>inner\<close> returns, it returns with the parent's memory; and a value returned is
  the value the callable returned within the deadline.
\<close>

lemma inner_memory:
  assumes "inner seconds force_kill function w m args = Some (res, m', p)"
  shows "m' = m"
  using assms
  by (auto simp add: inner_def fork_def Let_def split: if_splits option.splits prod.splits
      sum.splits envelope.splits)

lemma inner_Inr:
  assumes "inner seconds force_kill function w m args = Some (Inr r, m', p)"
  shows "fst (function args m) = Returns r \<and> child_duration w \<le> seconds \<and> m' = m"
proof (cases "is_alive (spawn_join seconds function w m args)")
  case True
  from True assms show ?thesis by (simp add: inner_alive)
next
  case False
  then have fin: "fst (function args m) \<noteq> NoReturn" and dl: "child_duration w \<le> seconds"
    by (simp_all add: spawn_join_alive_iff)
  show ?thesis
  proof (cases "fst (function args m)")
    case (Returns r')
    from Returns dl have "spawn_join seconds function w m args =
        \<lparr>queue = feed (pickled w) \<lparr>maxsize = 1, items = [Success r']\<rparr>, status = Exited\<rparr>"
      by (rule spawn_join_returned)
    from inner_one_envelope [OF this, of force_kill] assms dl Returns
    show ?thesis by (simp split: delivery.splits)
  next
    case (Raises e)
    show ?thesis
    proof (cases "is_Exception e")
      case True
      from Raises True dl have "spawn_join seconds function w m args =
          \<lparr>queue = feed (pickled w) \<lparr>maxsize = 1, items = [Failure e]\<rparr>, status = Exited\<rparr>"
        by (rule spawn_join_raised)
      from inner_one_envelope [OF this, of force_kill] assms
      show ?thesis by (simp split: delivery.splits)
    next
      case False
      from Raises False dl assms show ?thesis by (simp add: inner_escapes)
    qed
  next
    case NoReturn
    with fin show ?thesis by simp
  qed
qed

subsection \<open>The body of evaluate\<close>

lemma evaluate_body_Returns:
  assumes "fst (evaluate_body lib c m) = Returns out"
  shows "\<exists>tab0 tab m''. other_kwargs c = []
      \<and> initial_symtable lib (bound_input_variables c m) = Inr tab0
      \<and> Interpreter lib interpreter_flags tab0 (eval_code c) m = (Returns tab, m'')
      \<and> out = tab |` set (bound_output_variables c)"
  using assms
  by (auto simp add: evaluate_body_def split: list.splits sum.splits prod.splits outcome.splits)


lemma evaluate_Inr:
  assumes "evaluate lib w m c = Some (Inr out, m', p)"
  shows "fst (evaluate_body lib c m) = Returns out \<and> child_duration w \<le> 1 / 2 \<and> m' = m"
  using assms inner_Inr [of "1 / 2" True "evaluate_body lib" w m c out m' p]
  by (simp add: evaluate_def timeout_def)


text \<open>
  Without an input variable named \<^verbatim>\<open>use_numpy\<close> or \<^verbatim>\<open>range\<close>, the table is the
  built-in symbols, \<^verbatim>\<open>range\<close> and every input variable.
\<close>

lemma initial_symtable_seeded:
  assumes "''use_numpy'' \<notin> dom ins" and "''range'' \<notin> dom ins"
  shows "\<exists>tab. initial_symtable lib ins = Inr tab
      \<and> tab = builtin_symbols lib False ++ [''range'' \<mapsto> py_range lib] ++ ins
      \<and> tab ''range'' = Some (py_range lib)
      \<and> (\<forall>x \<in> dom ins. tab x = ins x)
      \<and> dom tab = dom (builtin_symbols lib False) \<union> {''range''} \<union> dom ins"
  using assms
  by (auto simp add: initial_symtable_def make_symbol_table_def map_add_def split: option.splits)

subsection \<open>The sample library at work\<close>

lemmas sample_defs = evaluate_body_def initial_symtable_def make_symbol_table_def
  bound_input_variables_def bound_output_variables_def default_input_variables_def
  sample_memory_def sample_asteval_def sample_interpreter_def domIff

lemma quick_in_time: "child_duration quick_world \<le> 1 / 2"
  by (simp add: quick_world_def)

lemma other_quick_in_time: "child_duration other_quick_world \<le> 1 / 2"
  by (simp add: other_quick_world_def)

lemma slow_late: "1 / 2 < child_duration slow_world"
  by (simp add: slow_world_def)

lemma slow_elapsed: "time_after slow_world - time_before slow_world = 13 / 25"
  by (simp add: slow_world_def)

lemma quick_pickling: "pickling quick_world = sample_pickling"
  by (simp add: quick_world_def)

lemma other_quick_pickling: "pickling other_quick_world = sample_pickling"
  by (simp add: other_quick_world_def)

lemma looping_body: "fst (evaluate_body sample_asteval looping_call sample_memory) = NoReturn"
  by (simp add: sample_defs looping_call_def)

lemma assigning_body:
  "fst (evaluate_body sample_asteval assigning_call sample_memory) =
     Returns [''x'' \<mapsto> 5, ''y'' \<mapsto> 10]"
  by (simp add: sample_defs assigning_call_def restrict_map_def map_add_def fun_eq_iff)

lemma assigning_evaluate:
  "evaluate sample_asteval quick_world sample_memory assigning_call =
     Some (Inr [''x'' \<mapsto> 5, ''y'' \<mapsto> 10], sample_memory,
           \<lparr>queue = \<lparr>maxsize = 1, items = []\<rparr>, status = Exited\<rparr>)"
proof -
  have "pickled quick_world (Success [''x'' \<mapsto> 5, ''y'' \<mapsto> 10]) = Delivered"
    by (simp add: pickled_def quick_world_def sample_pickling_def)
  with assigning_body quick_in_time show ?thesis
    unfolding evaluate_def timeout_def by (rule inner_returns)
qed

lemma deadline_body:
  "fst (evaluate_body sample_asteval deadline_call sample_memory) =
     Raises (TypeError ''unexpected keyword argument'')"
  by (simp add: sample_defs deadline_call_def)

lemma numpy_named_body:
  "fst (evaluate_body sample_asteval numpy_named_call sample_memory) =
     Raises (TypeError ''multiple values for keyword argument'')"
  by (simp add: sample_defs numpy_named_call_def)

lemma range_named_body:
  "fst (evaluate_body sample_asteval range_named_call sample_memory) =
     Raises (TypeError ''multiple values for keyword argument'')"
  by (simp add: sample_defs range_named_call_def)

lemma lambda_body:
  "fst (evaluate_body sample_asteval lambda_call sample_memory) = Returns [''f'' \<mapsto> - 1]"
  by (simp add: sample_defs lambda_call_def restrict_map_def map_add_def fun_eq_iff)

lemma defining_body:
  "fst (evaluate_body sample_asteval defining_call sample_memory) = Returns Map.empty"
  by (simp add: sample_defs defining_call_def interpreter_flags_def restrict_map_def map_add_def
      fun_eq_iff)

lemma incrementing_body:
  "fst (evaluate_body sample_asteval incrementing_call sample_memory) = Returns [''y'' \<mapsto> 11]"
  by (simp add: sample_defs incrementing_call_def restrict_map_def map_add_def fun_eq_iff)

lemma incrementing_evaluate:
  assumes "child_duration w \<le> 1 / 2" and "pickling w = sample_pickling"
  shows "evaluate sample_asteval w sample_memory incrementing_call =
     Some (Inr [''y'' \<mapsto> 11], sample_memory,
           \<lparr>queue = \<lparr>maxsize = 1, items = []\<rparr>, status = Exited\<rparr>)"
proof -
  have "pickled w (Success [''y'' \<mapsto> 11]) = Delivered"
    by (simp add: pickled_def assms(2) sample_pickling_def)
  with incrementing_body assms(1) show ?thesis
    unfolding evaluate_def timeout_def by (rule inner_returns)
qed

subsection \<open>The timeout path\<close>

text \<open>
  C1. When the child is still alive after \<^verbatim>\<open>join\<close> has waited for the deadline of
  \<open>evaluate\<close>, the call terminates the child and raises \<^verbatim>\<open>TimeoutException\<close> with the
  time elapsed between the two clock readings; it returns no output mapping. (The exception's
  message is the formatted number; the model keeps the number.)
\<close>

theorem evaluate_timeout:
  assumes "is_alive (spawn_join (1 / 2) (evaluate_body lib) w m c)"
  shows "evaluate lib w m c =
      Some (Inl (TimeoutException (time_after w - time_before w)), m,
            terminate (spawn_join (1 / 2) (evaluate_body lib) w m c))
    \<and> status (terminate (spawn_join (1 / 2) (evaluate_body lib) w m c)) = Terminated
    \<and> \<not> is_alive (terminate (spawn_join (1 / 2) (evaluate_body lib) w m c))
    \<and> (\<forall>out m' p. evaluate lib w m c \<noteq> Some (Inr out, m', p))"
  using assms
  by (simp add: evaluate_def timeout_def inner_alive terminate_def is_alive_def)

text \<open>C1 at \<^verbatim>\<open>while True: pass\<close>: the child never ends, and the caller gets the timeout.\<close>

theorem evaluate_timeout_witness:
  "is_alive (spawn_join (1 / 2) (evaluate_body sample_asteval) quick_world sample_memory looping_call)
   \<and> evaluate sample_asteval quick_world sample_memory looping_call =
       Some (Inl (TimeoutException (13 / 25)), sample_memory, \<lparr>queue = Queue 1, status = Terminated\<rparr>)"
proof -
  have sj: "spawn_join (1 / 2) (evaluate_body sample_asteval) quick_world sample_memory looping_call
      = \<lparr>queue = Queue 1, status = Running\<rparr>"
    by (simp add: spawn_join_cases looping_body)
  have al: "is_alive (spawn_join (1 / 2) (evaluate_body sample_asteval) quick_world sample_memory looping_call)"
    by (simp add: sj is_alive_def)
  have tm: "time_after quick_world - time_before quick_world = 13 / 25"
    by (simp add: quick_world_def)
  have tp: "terminate \<lparr>queue = Queue 1, status = Running\<rparr>
      = (\<lparr>queue = Queue 1, status = Terminated\<rparr> :: int symtable process)"
    by (simp add: terminate_def)
  from evaluate_timeout [OF al] have
    "evaluate sample_asteval quick_world sample_memory looping_call =
       Some (Inl (TimeoutException (time_after quick_world - time_before quick_world)), sample_memory,
             terminate (spawn_join (1 / 2) (evaluate_body sample_asteval) quick_world sample_memory looping_call))"
    by blast
  then have "evaluate sample_asteval quick_world sample_memory looping_call =
       Some (Inl (TimeoutException (13 / 25)), sample_memory, \<lparr>queue = Queue 1, status = Terminated\<rparr>)"
    by (simp only: sj tm tp)
  with al show ?thesis by (rule conjI)
qed

subsection \<open>What a successful call returns\<close>

text \<open>
  C2. A call of \<open>evaluate\<close> that returns a mapping returns the table the interpreter left,
  cut down to \<open>output_variables\<close>: its keys are the requested names that the final table
  binds, no others, and a requested name the table does not bind is left out. (The names
  bound during execution are the keys of the table after the run: the built-in symbols,
  \<^verbatim>\<open>range\<close>, the input variables and what the script assigned.)
\<close>

theorem evaluate_output_filter:
  assumes "evaluate lib w m c = Some (Inr out, m', p)"
  shows "\<exists>tab0 tab m''.
      initial_symtable lib (bound_input_variables c m) = Inr tab0
    \<and> Interpreter lib interpreter_flags tab0 (eval_code c) m = (Returns tab, m'')
    \<and> out = tab |` set (bound_output_variables c)
    \<and> dom out = set (bound_output_variables c) \<inter> dom tab"
proof -
  from evaluate_Inr [OF assms] have "fst (evaluate_body lib c m) = Returns out" by simp
  from evaluate_body_Returns [OF this] obtain tab0 tab m'' where
    "initial_symtable lib (bound_input_variables c m) = Inr tab0"
    "Interpreter lib interpreter_flags tab0 (eval_code c) m = (Returns tab, m'')"
    "out = tab |` set (bound_output_variables c)"
    by blast
  moreover from this have "dom out = set (bound_output_variables c) \<inter> dom tab"
    by auto
  ultimately show ?thesis by blast
qed

text \<open>
  C2 at \<^verbatim>\<open>x = 5\<close> with input \<^verbatim>\<open>{'y': 10}\<close> and the outputs \<^verbatim>\<open>x\<close>, \<^verbatim>\<open>y\<close>,
  \<^verbatim>\<open>z\<close>: the result holds \<^verbatim>\<open>x\<close> and \<^verbatim>\<open>y\<close>; \<^verbatim>\<open>z\<close>, \<^verbatim>\<open>abs\<close> and \<^verbatim>\<open>range\<close>
  are not in it.
\<close>

theorem evaluate_output_filter_witness:
  "evaluate sample_asteval quick_world sample_memory assigning_call =
     Some (Inr [''x'' \<mapsto> 5, ''y'' \<mapsto> 10], sample_memory,
           \<lparr>queue = \<lparr>maxsize = 1, items = []\<rparr>, status = Exited\<rparr>)
   \<and> (\<exists>tab. dom [''x'' \<mapsto> 5::int, ''y'' \<mapsto> 10] = set (bound_output_variables assigning_call) \<inter> dom tab
          \<and> [''x'' \<mapsto> 5::int, ''y'' \<mapsto> 10] = tab |` set (bound_output_variables assigning_call))"
  using assigning_evaluate evaluate_output_filter [OF assigning_evaluate] by blast

subsection \<open>Errors of the callable\<close>

text \<open>
  C3, as stated, fails, in three ways. With the input variables \<^verbatim>\<open>{'use_numpy': 1}\<close> the
  body raises a \<^verbatim>\<open>TypeError\<close>; when the child needs two seconds the caller gets
  \<^verbatim>\<open>TimeoutException\<close>, not that error. Under the decorator of \<open>evaluate\<close>, a callable
  that raises \<^verbatim>\<open>SystemExit\<close>, an exception outside \<^verbatim>\<open>Exception\<close>, is not caught by
  \<^verbatim>\<open>run_func\<close>: the child ends with an empty queue and the caller gets
  \<^verbatim>\<open>AssertionError\<close>. And a callable that raises a \<^verbatim>\<open>TwoArgs\<close>, which cannot be rebuilt
  from what the queue carries, gives the caller the \<^verbatim>\<open>TypeError\<close> of unpickling it.
\<close>

theorem evaluate_error_replaced:
  "fst (evaluate_body sample_asteval numpy_named_call sample_memory) =
     Raises (TypeError ''multiple values for keyword argument'')
   \<and> evaluate sample_asteval slow_world sample_memory numpy_named_call =
     Some (Inl (TimeoutException (13 / 25)), sample_memory,
       \<lparr>queue = \<lparr>maxsize = 1,
          items = [Failure (TypeError ''multiple values for keyword argument'')]\<rparr>,
        status = Terminated\<rparr>)
   \<and> timeout (1 / 2) True (raising (SystemExiting ''SystemExit'')) quick_world sample_memory () =
     Some (Inl AssertionError, sample_memory, \<lparr>queue = Queue 1, status = Exited\<rparr>)
   \<and> timeout (1 / 2) True (raising (OtherException ''TwoArgs'' ''a'')) quick_world sample_memory () =
     Some (Inl (TypeError ''missing 1 required positional argument''), sample_memory,
       \<lparr>queue = \<lparr>maxsize = 1, items = []\<rparr>, status = Exited\<rparr>)"
proof -
  have sj: "spawn_join (1 / 2) (evaluate_body sample_asteval) slow_world sample_memory numpy_named_call =
      \<lparr>queue = \<lparr>maxsize = 1,
          items = [Failure (TypeError ''multiple values for keyword argument'')]\<rparr>,
        status = Running\<rparr>"
    using slow_late by (simp add: spawn_join_cases numpy_named_body)
  then have "is_alive (spawn_join (1 / 2) (evaluate_body sample_asteval) slow_world sample_memory numpy_named_call)"
    by (simp add: is_alive_def)
  then have late: "evaluate sample_asteval slow_world sample_memory numpy_named_call =
     Some (Inl (TimeoutException (13 / 25)), sample_memory,
       \<lparr>queue = \<lparr>maxsize = 1,
          items = [Failure (TypeError ''multiple values for keyword argument'')]\<rparr>,
        status = Terminated\<rparr>)"
    by (simp add: evaluate_def timeout_def inner_alive sj terminate_def slow_elapsed)
  have exit_body: "fst (raising (SystemExiting ''SystemExit'') () sample_memory) =
      Raises (SystemExiting ''SystemExit'')"
    by (simp add: raising_def)
  have "\<not> is_Exception (SystemExiting ''SystemExit'')" by simp
  with exit_body have escaped:
    "timeout (1 / 2) True (raising (SystemExiting ''SystemExit'')) quick_world sample_memory () =
     Some (Inl AssertionError, sample_memory, \<lparr>queue = Queue 1, status = Exited\<rparr>)"
    unfolding timeout_def using quick_in_time by (rule inner_escapes)
  have two_body: "fst (raising (OtherException ''TwoArgs'' ''a'') () sample_memory) =
      Raises (OtherException ''TwoArgs'' ''a'')"
    by (simp add: raising_def)
  have two_exc: "is_Exception (OtherException ''TwoArgs'' ''a'')" by simp
  have two_way: "pickled quick_world (Failure (OtherException ''TwoArgs'' ''a'')) =
      Unreadable (TypeError ''missing 1 required positional argument'')"
    by (simp add: pickled_def quick_world_def sample_pickling_def)
  have unread:
    "timeout (1 / 2) True (raising (OtherException ''TwoArgs'' ''a'')) quick_world sample_memory () =
     Some (Inl (TypeError ''missing 1 required positional argument''), sample_memory,
       \<lparr>queue = \<lparr>maxsize = 1, items = []\<rparr>, status = Exited\<rparr>)"
    unfolding timeout_def using two_body two_exc quick_in_time two_way
    by (rule inner_raises_unreadable)
  from numpy_named_body late escaped unread show ?thesis by blast
qed

text \<open>
  C3, amended. When the body of \<open>evaluate\<close> raises an instance of \<^verbatim>\<open>Exception\<close>, the
  child ends within the deadline and the exception is pickled and rebuilt on its way through
  the queue, the caller gets that exception: an equal value, of the same type and message,
  neither wrapped nor turned into text. (The object crosses the process boundary as a
  pickle, so the caller's object is a copy: the model speaks of its value, not of its
  identity.)
\<close>

theorem evaluate_reraises_exception:
  assumes "fst (evaluate_body lib c m) = Raises e"
    and "is_Exception e"
    and "child_duration w \<le> 1 / 2"
    and "pickled w (Failure e) = Delivered"
  shows "evaluate lib w m c =
     Some (Inl e, m, \<lparr>queue = \<lparr>maxsize = 1, items = []\<rparr>, status = Exited\<rparr>)"
  unfolding evaluate_def timeout_def using assms by (rule inner_raises)

text \<open>
  C3, amended, at the \<^verbatim>\<open>TypeError\<close> that the input variables \<^verbatim>\<open>{'range': 7}\<close> raise on
  line 79, in a child that ends in time.
\<close>

theorem evaluate_reraises_exception_witness:
  "fst (evaluate_body sample_asteval range_named_call sample_memory) =
     Raises (TypeError ''multiple values for keyword argument'')
   \<and> is_Exception (TypeError ''multiple values for keyword argument'')
   \<and> child_duration quick_world \<le> 1 / 2
   \<and> pickled quick_world (Failure (TypeError ''multiple values for keyword argument'')) = Delivered
   \<and> evaluate sample_asteval quick_world sample_memory range_named_call =
     Some (Inl (TypeError ''multiple values for keyword argument''), sample_memory,
           \<lparr>queue = \<lparr>maxsize = 1, items = []\<rparr>, status = Exited\<rparr>)"
proof -
  have ex: "is_Exception (TypeError ''multiple values for keyword argument'')" by simp
  have dv: "pickled quick_world (Failure (TypeError ''multiple values for keyword argument'')) = Delivered"
    by (simp add: pickled_def)
  from evaluate_reraises_exception [OF range_named_body ex quick_in_time dv]
    range_named_body ex quick_in_time dv
  show ?thesis by blast
qed

subsection \<open>The configuration of the interpreter\<close>




subsection \<open>The call interface and the deadline\<close>

text \<open>
  C5, as stated, fails. \<open>evaluate\<close> has no parameter \<^verbatim>\<open>timeout_seconds\<close>: a call that
  passes \<^verbatim>\<open>timeout_seconds = 10\<close> gets the \<^verbatim>\<open>TypeError\<close> of the unexpected keyword
  from the child, and when the child needs two seconds (less than the ten asked for) the
  caller gets \<^verbatim>\<open>TimeoutException\<close> all the same.
\<close>

theorem evaluate_timeout_seconds_rejected:
  "other_kwargs deadline_call = [(''timeout_seconds'', 10)]
   \<and> evaluate sample_asteval quick_world sample_memory deadline_call =
     Some (Inl (TypeError ''unexpected keyword argument''), sample_memory,
           \<lparr>queue = \<lparr>maxsize = 1, items = []\<rparr>, status = Exited\<rparr>)
   \<and> child_duration slow_world = 2
   \<and> evaluate sample_asteval slow_world sample_memory deadline_call =
     Some (Inl (TimeoutException (13 / 25)), sample_memory,
           \<lparr>queue = \<lparr>maxsize = 1, items = [Failure (TypeError ''unexpected keyword argument'')]\<rparr>,
            status = Terminated\<rparr>)"
proof -
  have ex: "is_Exception (TypeError ''unexpected keyword argument'')" by simp
  have dv: "pickled quick_world (Failure (TypeError ''unexpected keyword argument'')) = Delivered"
    by (simp add: pickled_def)
  have quick: "evaluate sample_asteval quick_world sample_memory deadline_call =
     Some (Inl (TypeError ''unexpected keyword argument''), sample_memory,
           \<lparr>queue = \<lparr>maxsize = 1, items = []\<rparr>, status = Exited\<rparr>)"
    unfolding evaluate_def timeout_def using deadline_body ex quick_in_time dv
    by (rule inner_raises)
  have sj: "spawn_join (1 / 2) (evaluate_body sample_asteval) slow_world sample_memory deadline_call =
      \<lparr>queue = \<lparr>maxsize = 1, items = [Failure (TypeError ''unexpected keyword argument'')]\<rparr>,
        status = Running\<rparr>"
    using slow_late by (simp add: spawn_join_cases deadline_body)
  then have "is_alive (spawn_join (1 / 2) (evaluate_body sample_asteval) slow_world sample_memory deadline_call)"
    by (simp add: is_alive_def)
  then have slow: "evaluate sample_asteval slow_world sample_memory deadline_call =
     Some (Inl (TimeoutException (13 / 25)), sample_memory,
           \<lparr>queue = \<lparr>maxsize = 1, items = [Failure (TypeError ''unexpected keyword argument'')]\<rparr>,
            status = Terminated\<rparr>)"
    by (simp add: evaluate_def timeout_def inner_alive sj terminate_def slow_elapsed)
  have "other_kwargs deadline_call = [(''timeout_seconds'', 10)]" by (simp add: deadline_call_def)
  moreover have "child_duration slow_world = 2" by (simp add: slow_world_def)
  ultimately show ?thesis using quick slow by blast
qed

text \<open>
  C5, amended. \<open>evaluate\<close> is the body under \<^verbatim>\<open>@timeout(0.5)\<close>: the deadline is half a
  second for every call. A child that needs longer is terminated and the call fails with
  \<^verbatim>\<open>TimeoutException\<close> carrying the elapsed seconds; a call with a keyword argument the
  function does not have (\<^verbatim>\<open>timeout_seconds\<close> among them) fails, when the child ends in
  time, with the \<^verbatim>\<open>TypeError\<close> of that keyword.
\<close>

theorem evaluate_fixed_deadline:
  "evaluate lib = inner (1 / 2) True (evaluate_body lib)
   \<and> (1 / 2 < child_duration w \<longrightarrow>
        evaluate lib w m c =
          Some (Inl (TimeoutException (time_after w - time_before w)), m,
                terminate (spawn_join (1 / 2) (evaluate_body lib) w m c)))
   \<and> (child_duration w \<le> 1 / 2 \<longrightarrow> other_kwargs c \<noteq> [] \<longrightarrow>
        evaluate lib w m c =
          Some (Inl (TypeError ''unexpected keyword argument''), m,
                \<lparr>queue = \<lparr>maxsize = 1, items = []\<rparr>, status = Exited\<rparr>))"
proof (intro conjI impI)
  show "evaluate lib = inner (1 / 2) True (evaluate_body lib)"
    by (simp add: evaluate_def timeout_def)
next
  assume "1 / 2 < child_duration w"
  then have "is_alive (spawn_join (1 / 2) (evaluate_body lib) w m c)"
    by (rule spawn_join_late)
  then show "evaluate lib w m c =
      Some (Inl (TimeoutException (time_after w - time_before w)), m,
            terminate (spawn_join (1 / 2) (evaluate_body lib) w m c))"
    by (simp add: evaluate_def timeout_def inner_alive)
next
  assume dl: "child_duration w \<le> 1 / 2" and kw: "other_kwargs c \<noteq> []"
  from kw have body: "fst (evaluate_body lib c m) = Raises (TypeError ''unexpected keyword argument'')"
    by (simp add: evaluate_body_def split: list.splits)
  have ex: "is_Exception (TypeError ''unexpected keyword argument'')" by simp
  have dv: "pickled w (Failure (TypeError ''unexpected keyword argument'')) = Delivered"
    by (simp add: pickled_def)
  show "evaluate lib w m c =
      Some (Inl (TypeError ''unexpected keyword argument''), m,
            \<lparr>queue = \<lparr>maxsize = 1, items = []\<rparr>, status = Exited\<rparr>)"
    unfolding evaluate_def timeout_def using body ex dl dv by (rule inner_raises)
qed

text \<open>
  C5, amended, at a child that needs two seconds and at a call passing
  \<^verbatim>\<open>timeout_seconds = 10\<close>.
\<close>

theorem evaluate_fixed_deadline_witness:
  "1 / 2 < child_duration slow_world
   \<and> evaluate sample_asteval slow_world sample_memory assigning_call =
       Some (Inl (TimeoutException (13 / 25)), sample_memory,
             \<lparr>queue = \<lparr>maxsize = 1, items = [Success [''x'' \<mapsto> 5, ''y'' \<mapsto> 10]]\<rparr>,
              status = Terminated\<rparr>)
   \<and> child_duration quick_world \<le> 1 / 2
   \<and> other_kwargs deadline_call \<noteq> []
   \<and> evaluate sample_asteval quick_world sample_memory deadline_call =
       Some (Inl (TypeError ''unexpected keyword argument''), sample_memory,
             \<lparr>queue = \<lparr>maxsize = 1, items = []\<rparr>, status = Exited\<rparr>)"
proof -
  have kw: "other_kwargs deadline_call \<noteq> []" by (simp add: deadline_call_def)
  have sj: "terminate (spawn_join (1 / 2) (evaluate_body sample_asteval) slow_world sample_memory assigning_call) =
      \<lparr>queue = \<lparr>maxsize = 1, items = [Success [''x'' \<mapsto> 5, ''y'' \<mapsto> 10]]\<rparr>,
        status = Terminated\<rparr>"
    using slow_late by (simp add: spawn_join_cases assigning_body terminate_def)
  from evaluate_fixed_deadline [of sample_asteval slow_world sample_memory assigning_call] slow_late
  have "evaluate sample_asteval slow_world sample_memory assigning_call =
       Some (Inl (TimeoutException (time_after slow_world - time_before slow_world)), sample_memory,
         terminate (spawn_join (1 / 2) (evaluate_body sample_asteval) slow_world sample_memory assigning_call))"
    by blast
  then have slow: "evaluate sample_asteval slow_world sample_memory assigning_call =
       Some (Inl (TimeoutException (13 / 25)), sample_memory,
             \<lparr>queue = \<lparr>maxsize = 1, items = [Success [''x'' \<mapsto> 5, ''y'' \<mapsto> 10]]\<rparr>,
              status = Terminated\<rparr>)"
    by (simp only: sj slow_elapsed)
  from evaluate_fixed_deadline [of sample_asteval quick_world sample_memory deadline_call]
    quick_in_time kw
  have "evaluate sample_asteval quick_world sample_memory deadline_call =
       Some (Inl (TypeError ''unexpected keyword argument''), sample_memory,
             \<lparr>queue = \<lparr>maxsize = 1, items = []\<rparr>, status = Exited\<rparr>)"
    by blast
  with slow slow_late quick_in_time kw show ?thesis by blast
qed

subsection \<open>The result channel\<close>

text \<open>
  C6, as stated, fails. A callable that raises \<^verbatim>\<open>SystemExit\<close> (an exception outside
  \<^verbatim>\<open>Exception\<close>) and a callable that never returns leave the queue empty: no envelope is
  pushed.
\<close>

theorem run_func_without_envelope:
  "items (queue_of (run_func (Raises (SystemExiting ''SystemExit'') :: int outcome)
      (queue (start RunnableProcessing)))) = []
   \<and> items (queue_of (run_func (NoReturn :: int outcome) (queue (start RunnableProcessing)))) = []"
  by (simp add: run_func_def start_def RunnableProcessing_def Queue_def)

text \<open>
  C6, amended. On the fresh queue of a runner, \<^verbatim>\<open>run_func\<close> pushes \<open>Success\<close> of the
  value when the callable returns, \<open>Failure\<close> of the error when it raises an instance of
  \<^verbatim>\<open>Exception\<close>, and nothing otherwise: at most one envelope. The queue has capacity one;
  the queue the parent finds after \<^verbatim>\<open>join\<close> holds at most one item, and no put that
  succeeds takes a queue of capacity one beyond one item.
\<close>

theorem run_func_envelopes:
  "items (queue_of (run_func func (queue (start RunnableProcessing)))) =
     (case func of
        Returns r \<Rightarrow> [Success r]
      | Raises e \<Rightarrow> if is_Exception e then [Failure e] else []
      | NoReturn \<Rightarrow> [])
   \<and> maxsize (queue_of (run_func func (queue (start RunnableProcessing)))) = 1
   \<and> length (items (queue (spawn_join seconds function w m args))) \<le> 1
   \<and> (\<forall>x q q'. maxsize q = 1 \<and> length (items q) \<le> 1 \<and> put x q = Some q'
         \<longrightarrow> maxsize q' = 1 \<and> length (items q') \<le> 1)"
proof (intro conjI)
  show "items (queue_of (run_func func (queue (start RunnableProcessing)))) =
     (case func of
        Returns r \<Rightarrow> [Success r]
      | Raises e \<Rightarrow> if is_Exception e then [Failure e] else []
      | NoReturn \<Rightarrow> [])"
    by (simp add: run_func_def start_def RunnableProcessing_def Queue_def put_def full_def
        split: outcome.splits)
next
  show "maxsize (queue_of (run_func func (queue (start RunnableProcessing)))) = 1"
    by (simp add: run_func_def start_def RunnableProcessing_def Queue_def put_def full_def
        split: outcome.splits)
next
  show "length (items (queue (spawn_join seconds function w m args))) \<le> 1"
    by (simp add: spawn_join_cases Queue_def feed_def split: outcome.splits)
next
  show "\<forall>x q q'. maxsize q = 1 \<and> length (items q) \<le> 1 \<and> put x q = Some q'
         \<longrightarrow> maxsize q' = 1 \<and> length (items q') \<le> 1"
    by (intro allI impI, elim conjE) (rule put_capacity_one)
qed

text \<open>
  C6, amended, at a callable that returns 5 and at one that raises a \<^verbatim>\<open>TypeError\<close>.
\<close>

theorem run_func_envelopes_witness:
  "items (queue_of (run_func (Returns (5::int)) (queue (start RunnableProcessing)))) = [Success 5]
   \<and> items (queue_of (run_func (Raises (TypeError ''t'') :: int outcome) (queue (start RunnableProcessing))))
       = [Failure (TypeError ''t'')]"
  using run_func_envelopes [where func = "Returns (5::int)", THEN conjunct1]
    run_func_envelopes [where func = "Raises (TypeError ''t'') :: int outcome", THEN conjunct1]
  by simp

subsection \<open>A finished child with nothing to read\<close>

text \<open>
  When the child has ended within the deadline and the queue is not full, the
  \<^verbatim>\<open>assert\<close> of line 55 fails: the call raises \<^verbatim>\<open>AssertionError\<close> and returns no
  mapping, the empty mapping included.
\<close>

lemma evaluate_not_full_asserts:
  assumes "\<not> is_alive (spawn_join (1 / 2) (evaluate_body lib) w m c)"
    and "\<not> done_proc (spawn_join (1 / 2) (evaluate_body lib) w m c)"
  shows "evaluate lib w m c =
      Some (Inl AssertionError, m, spawn_join (1 / 2) (evaluate_body lib) w m c)
    \<and> (\<forall>out m' p. evaluate lib w m c \<noteq> Some (Inr out, m', p))"
  using assms by (simp add: evaluate_def timeout_def inner_finished_empty)

text \<open>
  C7: the code departs from the claim. \<^verbatim>\<open>done\<close> asks whether the queue is full, that is,
  whether a slot is taken, not whether there is something to read. With the input variables
  \<^verbatim>\<open>{'f': lambda: 0}\<close> and the output \<^verbatim>\<open>f\<close> the body returns a mapping that cannot be
  pickled: the child ends in time, nothing reaches the pipe, the slot stays taken, the
  \<^verbatim>\<open>assert\<close> passes and the call waits in \<^verbatim>\<open>queue.get()\<close> for ever. The claim asks for
  an abort.
\<close>

theorem evaluate_blocks_on_lost_result:
  "fst (evaluate_body sample_asteval lambda_call sample_memory) = Returns [''f'' \<mapsto> - 1]
   \<and> child_duration quick_world \<le> 1 / 2
   \<and> is_alive (spawn_join (1 / 2) (evaluate_body sample_asteval) quick_world sample_memory lambda_call)
       = False
   \<and> done_proc (spawn_join (1 / 2) (evaluate_body sample_asteval) quick_world sample_memory lambda_call)
   \<and> get (pickled quick_world)
         (queue (spawn_join (1 / 2) (evaluate_body sample_asteval) quick_world sample_memory lambda_call))
       = None
   \<and> evaluate sample_asteval quick_world sample_memory lambda_call = None"
proof -
  have lost: "pickled quick_world (Success [''f'' \<mapsto> - 1]) = Lost"
    by (simp add: pickled_def quick_world_def sample_pickling_def)
  from lambda_body quick_in_time
  have sj: "spawn_join (1 / 2) (evaluate_body sample_asteval) quick_world sample_memory lambda_call =
      \<lparr>queue = feed (pickled quick_world) \<lparr>maxsize = 1, items = [Success [''f'' \<mapsto> - 1]]\<rparr>,
        status = Exited\<rparr>"
    by (rule spawn_join_returned)
  have dead: "is_alive (spawn_join (1 / 2) (evaluate_body sample_asteval) quick_world sample_memory lambda_call)
       = False"
    by (simp add: sj is_alive_def)
  have dn: "done_proc (spawn_join (1 / 2) (evaluate_body sample_asteval) quick_world sample_memory lambda_call)"
    by (simp add: sj feed_def lost done_proc_def full_def)
  have empty_pipe: "get (pickled quick_world)
         (queue (spawn_join (1 / 2) (evaluate_body sample_asteval) quick_world sample_memory lambda_call))
       = None"
    by (simp add: sj feed_def lost get_def)
  from lambda_body quick_in_time lost
  have "evaluate sample_asteval quick_world sample_memory lambda_call = None"
    unfolding evaluate_def timeout_def by (rule inner_returns_lost)
  with lambda_body quick_in_time dead dn empty_pipe show ?thesis by blast
qed

subsection \<open>The symbol table\<close>

text \<open>
  C8: the code departs from the claim. With the input variables \<^verbatim>\<open>{'use_numpy': 1}\<close>
  the call of \<^verbatim>\<open>make_symbol_table\<close> on line 79 has the keyword \<^verbatim>\<open>use_numpy\<close> twice:
  no table is built, the entry is not seeded, and \<open>evaluate\<close> raises \<^verbatim>\<open>TypeError\<close>.
  (An input variable named \<^verbatim>\<open>range\<close> does the same; for every other input the table is
  as \<open>initial_symtable_seeded\<close> says.)
\<close>

theorem evaluate_rejects_use_numpy_input:
  "bound_input_variables numpy_named_call sample_memory = [''use_numpy'' \<mapsto> 1]
   \<and> initial_symtable sample_asteval [''use_numpy'' \<mapsto> 1] =
       Inl (TypeError ''multiple values for keyword argument'')
   \<and> evaluate sample_asteval quick_world sample_memory numpy_named_call =
       Some (Inl (TypeError ''multiple values for keyword argument''), sample_memory,
             \<lparr>queue = \<lparr>maxsize = 1, items = []\<rparr>, status = Exited\<rparr>)"
proof -
  have ins: "bound_input_variables numpy_named_call sample_memory = [''use_numpy'' \<mapsto> 1]"
    by (simp add: bound_input_variables_def numpy_named_call_def sample_memory_def fun_eq_iff)
  have tab: "initial_symtable sample_asteval [''use_numpy'' \<mapsto> 1] =
       Inl (TypeError ''multiple values for keyword argument'')"
    by (simp add: initial_symtable_def)
  have body: "fst (evaluate_body sample_asteval numpy_named_call sample_memory) =
      Raises (TypeError ''multiple values for keyword argument'')"
  proof -
    have "other_kwargs numpy_named_call = []" by (simp add: numpy_named_call_def)
    then show ?thesis by (simp add: evaluate_body_def ins tab)
  qed
  have ex: "is_Exception (TypeError ''multiple values for keyword argument'')" by simp
  have dv: "pickled quick_world (Failure (TypeError ''multiple values for keyword argument'')) = Delivered"
    by (simp add: pickled_def)
  have "evaluate sample_asteval quick_world sample_memory numpy_named_call =
       Some (Inl (TypeError ''multiple values for keyword argument''), sample_memory,
             \<lparr>queue = \<lparr>maxsize = 1, items = []\<rparr>, status = Exited\<rparr>)"
    unfolding evaluate_def timeout_def using body ex quick_in_time dv by (rule inner_raises)
  with ins tab show ?thesis by blast
qed

subsection \<open>Repeated calls\<close>

text \<open>
  C9. The interpreter is a function of its flags, its table, the script and the memory it
  runs in: its evaluation does not depend on time. Then two calls of \<open>evaluate\<close> with the
  same arguments from the same memory that both return a mapping return the same mapping,
  whatever the clock readings and the child's duration were.
\<close>

theorem evaluate_deterministic:
  assumes "evaluate lib w1 m c = Some (Inr out1, m1, p1)"
    and "evaluate lib w2 m c = Some (Inr out2, m2, p2)"
  shows "out1 = out2"
proof -
  from evaluate_Inr [OF assms(1)] have "fst (evaluate_body lib c m) = Returns out1" by simp
  moreover from evaluate_Inr [OF assms(2)] have "fst (evaluate_body lib c m) = Returns out2" by simp
  ultimately show ?thesis by simp
qed

text \<open>
  C9 at \<^verbatim>\<open>y = y + 1\<close> with input \<^verbatim>\<open>{'y': 10}\<close>, in two worlds.
\<close>

theorem evaluate_deterministic_witness:
  "evaluate sample_asteval quick_world sample_memory incrementing_call =
     Some (Inr [''y'' \<mapsto> 11], sample_memory,
           \<lparr>queue = \<lparr>maxsize = 1, items = []\<rparr>, status = Exited\<rparr>)
   \<and> evaluate sample_asteval other_quick_world sample_memory incrementing_call =
     Some (Inr [''y'' \<mapsto> 11], sample_memory,
           \<lparr>queue = \<lparr>maxsize = 1, items = []\<rparr>, status = Exited\<rparr>)
   \<and> quick_world \<noteq> other_quick_world
   \<and> [''y'' \<mapsto> 11::int] = [''y'' \<mapsto> 11]"
  using incrementing_evaluate [OF quick_in_time quick_pickling]
    incrementing_evaluate [OF other_quick_in_time other_quick_pickling]
    evaluate_deterministic [OF incrementing_evaluate [OF quick_in_time quick_pickling]
      incrementing_evaluate [OF other_quick_in_time other_quick_pickling]]
  by (simp add: quick_world_def other_quick_world_def)

subsection \<open>The caller's memory\<close>

text \<open>
  C10. A call of \<open>evaluate\<close> that comes back, with a mapping, an error or the timeout,
  leaves the caller's memory as it was: the dictionary passed as \<open>input_variables\<close> and
  the shared default \<^verbatim>\<open>{}\<close> are unchanged. The body runs in the child, on the child's copy,
  and only the queue and the process status come back.
\<close>

theorem evaluate_keeps_caller_memory:
  assumes "evaluate lib w m c = Some (res, m', p)"
  shows "m' = m
    \<and> bound_input_variables c m' = bound_input_variables c m
    \<and> m' default_input_variables = m default_input_variables"
proof -
  from assms have "inner (1 / 2) True (evaluate_body lib) w m c = Some (res, m', p)"
    by (simp add: evaluate_def timeout_def)
  then have "m' = m" by (rule inner_memory)
  then show ?thesis by simp
qed

text \<open>
  C10 at \<^verbatim>\<open>y = y + 1\<close> with input \<^verbatim>\<open>{'y': 10}\<close>: the call returns \<^verbatim>\<open>y\<close> at 11 and the
  caller's dictionary still has 10.
\<close>

theorem evaluate_keeps_caller_memory_witness:
  "evaluate sample_asteval quick_world sample_memory incrementing_call =
     Some (Inr [''y'' \<mapsto> 11], sample_memory,
           \<lparr>queue = \<lparr>maxsize = 1, items = []\<rparr>, status = Exited\<rparr>)
   \<and> bound_input_variables incrementing_call sample_memory = [''y'' \<mapsto> 10]
   \<and> sample_memory default_input_variables = Map.empty"
proof -
  have parent: "bound_input_variables incrementing_call sample_memory = [''y'' \<mapsto> 10]"
    by (simp add: bound_input_variables_def incrementing_call_def sample_memory_def fun_eq_iff)
  have dflt: "sample_memory default_input_variables = Map.empty"
    by (simp add: sample_memory_def default_input_variables_def)
  note ev = incrementing_evaluate [OF quick_in_time quick_pickling]
  from evaluate_keeps_caller_memory [OF ev] ev parent dflt show ?thesis by simp
qed

end
